theory Spec2Isabelle
  imports Complex_Main "HOL-Library.AList"
begin

section \<open>Numbers, errors and configuration\<close>

text \<open>
  Prices are finite floating-point numbers and are modelled as reals. A value that pandas
  or numpy may leave undefined is a \<open>real option\<close>: \<open>None\<close> stands for a result that is
  not a finite number (NaN in an indicator series, inf or NaN after a numpy division by
  zero). Comparisons with \<open>None\<close> are false, as comparisons with NaN are.
\<close>

type_synonym npfloat = "real option"

definition np_div :: "real \<Rightarrow> real \<Rightarrow> npfloat" where
  \<comment> \<open>numpy float64 division: a zero divisor gives inf or NaN and a warning, no exception\<close>
  "np_div a b = (if b = 0 then None else Some (a / b))"

definition np_mul :: "npfloat \<Rightarrow> real \<Rightarrow> npfloat" where
  "np_mul a b = map_option (\<lambda>x. x * b) a"

definition np_lt :: "npfloat \<Rightarrow> real \<Rightarrow> bool" where
  "np_lt a b = (case a of None \<Rightarrow> False | Some x \<Rightarrow> x < b)"

definition np_ge :: "npfloat \<Rightarrow> real \<Rightarrow> bool" where
  "np_ge a b = (case a of None \<Rightarrow> False | Some x \<Rightarrow> x \<ge> b)"

datatype error = ValueError string | ZeroDivisionError | TypeError

text \<open>
  A symbol's configuration is a JSON object read with \<open>.get(key, default)\<close>; a key that is
  absent is \<open>None\<close>, and the object with no key at all is Python's falsy \<open>{}\<close>.
\<close>

record symbol_config =
  enabled :: "bool option"
  cfg_leverage :: "int option"
  trade_volume :: "real option"
  rsi_long_threshold :: "real option"
  shadow_distance_threshold :: "real option"
  take_profit_percent :: "real option"
  stop_loss_percent :: "real option"

definition empty_config :: symbol_config where
  "empty_config = \<lparr>enabled = None, cfg_leverage = None, trade_volume = None,
     rsi_long_threshold = None, shadow_distance_threshold = None,
     take_profit_percent = None, stop_loss_percent = None\<rparr>"

type_synonym config = "string \<rightharpoonup> symbol_config"

definition get_symbol_config :: "config \<Rightarrow> string \<Rightarrow> symbol_config" where
  \<comment> \<open>\<open>self.config.get('pairs', {}).get(symbol, {})\<close>\<close>
  "get_symbol_config cfg smb = (case cfg smb of None \<Rightarrow> empty_config | Some c \<Rightarrow> c)"

definition get_or :: "'a option \<Rightarrow> 'a \<Rightarrow> 'a" where
  "get_or v d = (case v of None \<Rightarrow> d | Some x \<Rightarrow> x)"

definition upper :: "string \<Rightarrow> string" where
  \<comment> \<open>\<open>str.upper()\<close> on ASCII text\<close>
  "upper s = map (\<lambda>c. if 97 \<le> (of_char c :: nat) \<and> (of_char c :: nat) \<le> 122
                        then char_of ((of_char c :: nat) - 32) else c) s"

section \<open>Position manager\<close>

text \<open>
  \<open>position_data\<close> holds the two keys that the exit check reads; the stored position and
  the backtest's position both extend it.
\<close>

record position_data =
  side :: string
  entry_price :: real

record position = position_data +
  pos_id :: string
  symbol :: string
  quantity :: npfloat
  leverage :: int
  take_profit :: real
  stop_loss :: real
  rsi_at_entry :: "real option"
  entry_time :: string
  status :: string
  exit_price :: "real option"
  exit_time :: "string option"
  pnl :: npfloat
  pnl_percent :: real
  exit_reason :: "string option"

text \<open>
  \<open>self.positions\<close> is a dict keyed by position id. Python dicts keep insertion order and
  assignment to an existing key replaces its value in place, which is \<open>AList.update\<close>.
\<close>

type_synonym store = "(string \<times> position) list"

definition add_position ::
  "store \<Rightarrow> string \<Rightarrow> string \<Rightarrow> string \<Rightarrow> string \<Rightarrow> npfloat \<Rightarrow> real \<Rightarrow> int \<Rightarrow> real \<Rightarrow> real
    \<Rightarrow> real option \<Rightarrow> (error + string) \<times> store" where
  \<comment> \<open>\<open>stamp\<close> is \<open>datetime.now().strftime('%Y%m%d_%H%M%S')\<close>, \<open>isots\<close> is \<open>datetime.now().isoformat()\<close>\<close>
  "add_position st stamp isots smb sd qty entry lev tp sl rsi =
     (let position_id = smb @ ''_'' @ stamp;
          position_data = \<lparr>side = sd, entry_price = entry, pos_id = position_id, symbol = smb,
             quantity = qty, leverage = lev, take_profit = tp, stop_loss = sl,
             rsi_at_entry = rsi, entry_time = isots, status = ''OPEN'', exit_price = None,
             exit_time = None, pnl = Some 0, pnl_percent = 0, exit_reason = None\<rparr>
      in (Inr position_id, AList.update position_id position_data st))"

definition close_position ::
  "store \<Rightarrow> string \<Rightarrow> string \<Rightarrow> real \<Rightarrow> string \<Rightarrow> (error + position) \<times> store" where
  \<comment> \<open>the stored prices are Python floats, whose division by zero raises\<close>
  "close_position st isots position_id exit_pr reason =
     (case map_of st position_id of
        None \<Rightarrow> (Inl (ValueError (''Position '' @ position_id @ '' not found'')), st)
      | Some p \<Rightarrow>
          if status p \<noteq> ''OPEN''
          then (Inl (ValueError (''Position '' @ position_id @ '' is not open'')), st)
          else
            let price_change = (if upper (side p) = ''LONG'' then exit_pr - entry_price p
                                else entry_price p - exit_pr)
            in if entry_price p = 0 then (Inl ZeroDivisionError, st)
               else
                 let pnl_v = map_option (\<lambda>q. (price_change / entry_price p) * q * entry_price p
                                               * real_of_int (leverage p)) (quantity p);
                     pnl_pc = (price_change / entry_price p) * 100 * real_of_int (leverage p);
                     p' = p\<lparr>exit_price := Some exit_pr, exit_time := Some isots,
                            status := ''CLOSED'', pnl := pnl_v, pnl_percent := pnl_pc,
                            exit_reason := Some reason\<rparr>
                 in (Inr p', AList.update position_id p' st))"

definition get_open_positions :: "store \<Rightarrow> position list" where
  "get_open_positions st = filter (\<lambda>p. status p = ''OPEN'') (map snd st)"

definition get_position_by_symbol :: "store \<Rightarrow> string \<Rightarrow> position option" where
  "get_position_by_symbol st smb = find (\<lambda>p. symbol p = smb) (get_open_positions st)"

definition has_open_position :: "store \<Rightarrow> string \<Rightarrow> bool" where
  "has_open_position st smb = (get_position_by_symbol st smb \<noteq> None)"

section \<open>Technical indicators\<close>

text \<open>A pandas Series of floats is a list of \<open>npfloat\<close>; the closes themselves hold no NaN.\<close>

fun diff :: "real list \<Rightarrow> npfloat list" where
  \<comment> \<open>\<open>prices.diff()\<close>: NaN at the first bar, the change from the bar before elsewhere\<close>
  "diff [] = []"
| "diff (x # xs) = None # map2 (\<lambda>a b. Some (b - a)) (x # xs) xs"

definition series_where :: "(real \<Rightarrow> bool) \<Rightarrow> real \<Rightarrow> npfloat list \<Rightarrow> npfloat list" where
  \<comment> \<open>\<open>s.where(cond, other)\<close>: keeps a value where the condition holds, puts \<open>other\<close> where
      it does not; a comparison with NaN does not hold\<close>
  "series_where c other s =
     map (\<lambda>v. case v of None \<Rightarrow> Some other
                       | Some x \<Rightarrow> if c x then Some x else Some other) s"

definition series_neg :: "npfloat list \<Rightarrow> npfloat list" where
  "series_neg s = map (map_option uminus) s"

definition window_at :: "nat \<Rightarrow> 'a list \<Rightarrow> nat \<Rightarrow> 'a list" where
  \<comment> \<open>the last \<open>w\<close> entries up to and including index \<open>i\<close> (fewer near the start)\<close>
  "window_at w s i = drop (Suc i - w) (take (Suc i) s)"

definition valid :: "npfloat list \<Rightarrow> real list" where
  "valid s = map the (filter (\<lambda>v. v \<noteq> None) s)"

definition rolling_mean :: "nat \<Rightarrow> nat \<Rightarrow> npfloat list \<Rightarrow> npfloat list" where
  \<comment> \<open>\<open>s.rolling(window=w, min_periods=mp).mean()\<close>: the mean of the window's non-NaN
      entries, NaN when there are fewer than \<open>mp\<close> of them\<close>
  "rolling_mean w mp s =
     map (\<lambda>i. let vs = valid (window_at w s i)
               in if length vs \<ge> mp \<and> vs \<noteq> [] then Some (sum_list vs / real (length vs))
                  else None) [0..<length s]"

definition sample_std :: "real list \<Rightarrow> real" where
  \<comment> \<open>standard deviation with \<open>ddof=1\<close>\<close>
  "sample_std vs =
     (let m = sum_list vs / real (length vs)
      in sqrt (sum_list (map (\<lambda>x. (x - m)\<^sup>2) vs) / real (length vs - 1)))"

definition rolling_std :: "nat \<Rightarrow> nat \<Rightarrow> npfloat list \<Rightarrow> npfloat list" where
  \<comment> \<open>\<open>s.rolling(window=w, min_periods=mp).std()\<close>: NaN with fewer than two entries\<close>
  "rolling_std w mp s =
     map (\<lambda>i. let vs = valid (window_at w s i)
               in if length vs \<ge> mp \<and> length vs \<ge> 2 then Some (sample_std vs) else None)
         [0..<length s]"

definition series_div_eps :: "npfloat list \<Rightarrow> npfloat list \<Rightarrow> npfloat list" where
  \<comment> \<open>\<open>avg_gains / (avg_losses + 1e-10)\<close>, element by element\<close>
  "series_div_eps a b =
     map2 (\<lambda>x y. case (x, y) of
                    (Some g, Some l) \<Rightarrow> np_div g (l + 1 / 10000000000)
                  | _ \<Rightarrow> None) a b"

definition series_rsi :: "npfloat list \<Rightarrow> npfloat list" where
  \<comment> \<open>\<open>100 - (100 / (1 + rs))\<close>\<close>
  "series_rsi rs =
     map (\<lambda>v. case v of None \<Rightarrow> None
                       | Some r \<Rightarrow> map_option (\<lambda>q. 100 - q) (np_div 100 (1 + r))) rs"

definition fillna :: "real \<Rightarrow> npfloat list \<Rightarrow> real list" where
  "fillna d s = map (\<lambda>v. get_or v d) s"

definition calculate_rsi :: "real list \<Rightarrow> int \<Rightarrow> error + real list" where
  \<comment> \<open>\<open>rolling(window=period, min_periods=1)\<close> raises ValueError unless \<open>1 \<le> period\<close>\<close>
  "calculate_rsi prices period =
     (if period < 1 then Inl (ValueError ''min_periods 1 must be <= window'')
      else
        let delta = diff prices;
            gains = series_where (\<lambda>d. d > 0) 0 delta;
            losses = series_neg (series_where (\<lambda>d. d < 0) 0 delta);
            avg_gains = rolling_mean (nat period) 1 gains;
            avg_losses = rolling_mean (nat period) 1 losses;
            rs = series_div_eps avg_gains avg_losses;
            rsi = series_rsi rs
        in Inr (fillna 50 rsi))"

definition series_scale :: "real \<Rightarrow> npfloat list \<Rightarrow> npfloat list" where
  "series_scale k s = map (map_option (\<lambda>x. x * k)) s"

definition series_add :: "npfloat list \<Rightarrow> npfloat list \<Rightarrow> npfloat list" where
  "series_add a b = map2 (\<lambda>x y. case (x, y) of (Some u, Some v) \<Rightarrow> Some (u + v) | _ \<Rightarrow> None) a b"

definition series_sub :: "npfloat list \<Rightarrow> npfloat list \<Rightarrow> npfloat list" where
  "series_sub a b = map2 (\<lambda>x y. case (x, y) of (Some u, Some v) \<Rightarrow> Some (u - v) | _ \<Rightarrow> None) a b"

definition calculate_bollinger_bands ::
  "real list \<Rightarrow> int \<Rightarrow> real \<Rightarrow> error + (npfloat list \<times> npfloat list \<times> npfloat list)" where
  \<comment> \<open>\<open>rolling(window=period)\<close> takes \<open>min_periods = period\<close> and raises on a negative window\<close>
  "calculate_bollinger_bands prices period std_dev =
     (if period < 0 then Inl (ValueError ''window must be an integer 0 or greater'')
      else
        let middle_band = rolling_mean (nat period) (nat period) (map Some prices);
            std = rolling_std (nat period) (nat period) (map Some prices);
            upper_band = series_add middle_band (series_scale std_dev std);
            lower_band = series_sub middle_band (series_scale std_dev std)
        in Inr (upper_band, middle_band, lower_band))"

definition calculate_price_distance_from_bb_lower :: "real \<Rightarrow> npfloat \<Rightarrow> npfloat" where
  "calculate_price_distance_from_bb_lower price lower_band =
     (case lower_band of
        None \<Rightarrow> None
      | Some lb \<Rightarrow> if lb = 0 then Some 0 else Some (((lb - price) / lb) * 100))"

definition is_long_signal :: "real \<Rightarrow> real \<Rightarrow> npfloat \<Rightarrow> real \<Rightarrow> real \<Rightarrow> bool" where
  "is_long_signal rsi price lower_band rsi_threshold distance_threshold =
     (let rsi_condition = rsi < rsi_threshold;
          distance = calculate_price_distance_from_bb_lower price lower_band;
          distance_condition = np_ge distance distance_threshold
      in rsi_condition \<and> distance_condition)"

section \<open>Trading strategy\<close>

record candle =
  timestamp :: int
  open_price :: real
  high :: real
  low :: real
  close :: real
  volume :: real

text \<open>
  The reason of a decision is text. Where the source formats numbers into it, the pieces
  are kept as the numbers they show.
\<close>

datatype cond_text =
    Rsi_not_below real real  \<comment> \<open>\<open>f'RSI({current_rsi:.2f}) >= {rsi_threshold}'\<close>\<close>
  | Price_only npfloat real  \<comment> \<open>\<open>f'Price only {distance_from_bb:.2f}% below BB (need {distance_threshold}%)'\<close>\<close>

datatype reason_text =
    Text string
  | Long_met real real npfloat
      \<comment> \<open>\<open>f'RSI({current_rsi:.2f}) < {rsi_threshold} AND price {distance_from_bb:.2f}% below BB lower'\<close>\<close>
  | Joined "cond_text list"  \<comment> \<open>\<open>' AND '.join(reasons)\<close>\<close>

record analysis =
  a_symbol :: string
  a_signal :: string
  a_reason :: reason_text
  a_rsi :: "real option"
  a_bb_upper :: npfloat
  a_bb_middle :: npfloat
  a_bb_lower :: npfloat
  a_current_price :: "real option"
  a_distance_from_bb_lower :: npfloat
  a_config :: "symbol_config option"

definition rsi_period :: int where "rsi_period = 6"
definition bb_period :: int where "bb_period = 20"
definition bb_std_dev :: real where "bb_std_dev = 2"

definition analyze_symbol :: "config \<Rightarrow> string \<Rightarrow> candle list \<Rightarrow> error + analysis" where
  \<comment> \<open>\<open>.iloc[-1]\<close> is \<open>last\<close>: past the length check no series is empty\<close>
  "analyze_symbol cfg smb df =
     (if int (length df) < max rsi_period bb_period
      then Inr \<lparr>a_symbol = smb, a_signal = ''NONE'', a_reason = Text ''Insufficient data'',
                 a_rsi = None, a_bb_upper = None, a_bb_middle = None, a_bb_lower = None,
                 a_current_price = None, a_distance_from_bb_lower = None, a_config = None\<rparr>
      else
        case calculate_rsi (map close df) rsi_period of
          Inl e \<Rightarrow> Inl e
        | Inr rsi \<Rightarrow>
           (case calculate_bollinger_bands (map close df) bb_period bb_std_dev of
              Inl e \<Rightarrow> Inl e
            | Inr (bb_upper, bb_middle, bb_lower) \<Rightarrow>
                let current_price = last (map close df);
                    current_rsi = last rsi;
                    current_bb_lower = last bb_lower;
                    current_bb_upper = last bb_upper;
                    current_bb_middle = last bb_middle;
                    symbol_config = get_symbol_config cfg smb
                in if symbol_config = empty_config \<or> \<not> get_or (enabled symbol_config) False
                   then Inr \<lparr>a_symbol = smb, a_signal = ''NONE'',
                              a_reason = Text ''Symbol not configured or disabled'',
                              a_rsi = Some current_rsi, a_bb_upper = current_bb_upper,
                              a_bb_middle = current_bb_middle, a_bb_lower = current_bb_lower,
                              a_current_price = Some current_price,
                              a_distance_from_bb_lower = None, a_config = None\<rparr>
                   else
                     let rsi_threshold = get_or (rsi_long_threshold symbol_config) 30;
                         distance_threshold =
                           get_or (shadow_distance_threshold symbol_config) (3 / 2);
                         long_signal = is_long_signal current_rsi current_price
                                         current_bb_lower rsi_threshold distance_threshold;
                         distance_from_bb = calculate_price_distance_from_bb_lower
                                              current_price current_bb_lower;
                         reasons = (if current_rsi \<ge> rsi_threshold
                                    then [Rsi_not_below current_rsi rsi_threshold] else [])
                                 @ (if np_lt distance_from_bb distance_threshold
                                    then [Price_only distance_from_bb distance_threshold]
                                    else [])
                     in Inr \<lparr>a_symbol = smb,
                          a_signal = (if long_signal then ''LONG'' else ''NONE''),
                          a_reason = (if long_signal
                                      then Long_met current_rsi rsi_threshold distance_from_bb
                                      else if reasons \<noteq> [] then Joined reasons
                                      else Text ''No signal conditions met''),
                          a_rsi = Some current_rsi, a_bb_upper = current_bb_upper,
                          a_bb_middle = current_bb_middle, a_bb_lower = current_bb_lower,
                          a_current_price = Some current_price,
                          a_distance_from_bb_lower = distance_from_bb,
                          a_config = Some symbol_config\<rparr>))"

definition calculate_position_size :: "config \<Rightarrow> string \<Rightarrow> real \<Rightarrow> npfloat" where
  \<comment> \<open>both callers pass a numpy float64 read from the candle frame\<close>
  "calculate_position_size cfg smb current_price =
     (let symbol_config = get_symbol_config cfg smb;
          trade_volume_usdt = get_or (trade_volume symbol_config) 20
      in np_div trade_volume_usdt current_price)"

definition calculate_take_profit_stop_loss :: "config \<Rightarrow> string \<Rightarrow> real \<Rightarrow> string \<Rightarrow> real \<times> real" where
  "calculate_take_profit_stop_loss cfg smb entry sd =
     (let symbol_config = get_symbol_config cfg smb;
          tp_percent = get_or (take_profit_percent symbol_config) 2 / 100;
          sl_percent = get_or (stop_loss_percent symbol_config) 1 / 100
      in if upper sd = ''LONG''
         then (entry * (1 + tp_percent), entry * (1 - sl_percent))
         else (entry * (1 - tp_percent), entry * (1 + sl_percent)))"

definition should_close_position ::
  "config \<Rightarrow> string \<Rightarrow> 'a position_data_scheme \<Rightarrow> real \<Rightarrow> bool \<times> string" where
  \<comment> \<open>both callers pass a position that has the keys \<open>entry_price\<close> and \<open>side\<close>\<close>
  "should_close_position cfg smb pd current_price =
     (if entry_price pd = 0 then (False, ''No entry price available'')
      else
        case calculate_take_profit_stop_loss cfg smb (entry_price pd) (side pd) of
          (tp, sl) \<Rightarrow>
            if upper (side pd) = ''LONG''
            then (if current_price \<ge> tp then (True, ''Take Profit'')
                  else if current_price \<le> sl then (True, ''Stop Loss'')
                  else (False, ''No exit signal''))
            else (if current_price \<le> tp then (True, ''Take Profit'')
                  else if current_price \<ge> sl then (True, ''Stop Loss'')
                  else (False, ''No exit signal'')))"

section \<open>Backtest\<close>

record bt_position = position_data +
  bp_symbol :: string
  bp_entry_time :: int
  bp_quantity :: npfloat
  bp_take_profit :: real
  bp_stop_loss :: real
  bp_rsi_at_entry :: "real option"
  bp_leverage :: int

record trade =
  t_symbol :: string
  t_side :: string
  t_entry_time :: int
  t_exit_time :: int
  t_entry_price :: real
  t_exit_price :: real
  t_quantity :: npfloat
  t_leverage :: int
  t_rsi_at_entry :: "real option"
  t_pnl_percent :: npfloat
  t_pnl_usdt :: npfloat
  t_exit_reason :: "string option"
  t_duration_minutes :: real

type_synonym bt_state = "trade list \<times> bt_position option"

definition bt_open :: "config \<Rightarrow> string \<Rightarrow> int \<Rightarrow> analysis \<Rightarrow> error + bt_position" where
  \<comment> \<open>the branch of \<open>run_backtest\<close> that builds the position on a LONG signal\<close>
  "bt_open cfg smb current_time an =
     (case a_current_price an of
        None \<Rightarrow> Inl TypeError
      | Some entry \<Rightarrow>
          let qty = calculate_position_size cfg smb entry
          in case calculate_take_profit_stop_loss cfg smb entry ''LONG'' of
               (tp, sl) \<Rightarrow>
                 Inr \<lparr>side = ''LONG'', entry_price = entry, bp_symbol = smb,
                      bp_entry_time = current_time, bp_quantity = qty,
                      bp_take_profit = tp, bp_stop_loss = sl, bp_rsi_at_entry = a_rsi an,
                      bp_leverage = get_or (cfg_leverage (get_symbol_config cfg smb)) 10\<rparr>)"

definition bt_exit_check :: "bt_position \<Rightarrow> real \<Rightarrow> bool \<times> string option" where
  \<comment> \<open>the exit test of \<open>run_backtest\<close>, against the levels stored in the position\<close>
  "bt_exit_check pos current_price =
     (if side pos = ''LONG''
      then (if current_price \<ge> bp_take_profit pos then (True, Some ''Take Profit'')
            else if current_price \<le> bp_stop_loss pos then (True, Some ''Stop Loss'')
            else (False, None))
      else (False, None))"

definition bt_close :: "config \<Rightarrow> string \<Rightarrow> int \<Rightarrow> bt_position \<Rightarrow> real \<Rightarrow> string option \<Rightarrow> trade" where
  \<comment> \<open>the trade that \<open>run_backtest\<close> records when the exit test fires\<close>
  "bt_close cfg smb current_time pos exit_pr rsn =
     (let price_change = (if side pos = ''LONG'' then exit_pr - entry_price pos
                          else entry_price pos - exit_pr);
          pnl_pc = np_mul (np_mul (np_div price_change (entry_price pos)) 100)
                     (real_of_int (bp_leverage pos));
          pnl_usdt = np_mul (np_mul (np_div price_change (entry_price pos))
                               (get_or (trade_volume (get_symbol_config cfg smb)) 20))
                       (real_of_int (bp_leverage pos))
      in \<lparr>t_symbol = smb, t_side = side pos, t_entry_time = bp_entry_time pos,
           t_exit_time = current_time, t_entry_price = entry_price pos,
           t_exit_price = exit_pr, t_quantity = bp_quantity pos,
           t_leverage = bp_leverage pos, t_rsi_at_entry = bp_rsi_at_entry pos,
           t_pnl_percent = pnl_pc, t_pnl_usdt = pnl_usdt, t_exit_reason = rsn,
           t_duration_minutes = real_of_int (current_time - bp_entry_time pos) / 60\<rparr>)"

fun bt_step :: "config \<Rightarrow> string \<Rightarrow> candle list \<Rightarrow> nat \<Rightarrow> bt_state \<Rightarrow> error + bt_state" where
  \<comment> \<open>one pass of the loop body at bar \<open>i\<close>; timestamps count seconds\<close>
  "bt_step cfg smb df i (trades, position) =
       (let current_data = take (i + 1) df;
            current_time = timestamp (df ! i)
        in case analyze_symbol cfg smb current_data of
             Inl e \<Rightarrow> Inl e
           | Inr an \<Rightarrow>
              (case position of
                 None \<Rightarrow>
                   if a_signal an = ''LONG''
                   then (case bt_open cfg smb current_time an of
                           Inl e \<Rightarrow> Inl e
                         | Inr pos \<Rightarrow> Inr (trades, Some pos))
                   else Inr (trades, None)
               | Some pos \<Rightarrow>
                  (case a_current_price an of
                     None \<Rightarrow> if side pos = ''LONG'' then Inl TypeError
                              else Inr (trades, Some pos)
                   | Some current_price \<Rightarrow>
                      (case bt_exit_check pos current_price of
                         (should_close, rsn) \<Rightarrow>
                           if should_close
                           then Inr (trades @ [bt_close cfg smb current_time pos
                                                 current_price rsn], None)
                           else Inr (trades, Some pos)))))"

fun bt_loop :: "config \<Rightarrow> string \<Rightarrow> candle list \<Rightarrow> nat list \<Rightarrow> bt_state \<Rightarrow> error + bt_state" where
  "bt_loop cfg smb df [] s = Inr s"
| "bt_loop cfg smb df (i # is) s =
     (case bt_step cfg smb df i s of
        Inl e \<Rightarrow> Inl e
      | Inr s' \<Rightarrow> bt_loop cfg smb df is s')"

definition run_backtest :: "config \<Rightarrow> string \<Rightarrow> candle list \<Rightarrow> error + trade list" where
  "run_backtest cfg smb df =
     (let symbol_config = get_symbol_config cfg smb
      in if symbol_config = empty_config \<or> \<not> get_or (enabled symbol_config) False
         then Inr []
         else case bt_loop cfg smb df [nat (max 20 6)..<length df] ([], None) of
                Inl e \<Rightarrow> Inl e
              | Inr (trades, position) \<Rightarrow> Inr trades)"

section \<open>Live trade execution\<close>

text \<open>
  The exchange is outside the program: whether its two calls succeed is an input. A call
  that raises is caught by \<open>execute_trade\<close>, which then returns \<open>False\<close>.
\<close>

record exchange =
  set_leverage_ok :: bool
  place_market_order_ok :: bool

definition execute_trade ::
  "config \<Rightarrow> store \<Rightarrow> exchange \<Rightarrow> string \<Rightarrow> string \<Rightarrow> analysis \<Rightarrow> bool \<times> store" where
  "execute_trade cfg st ex stamp isots an =
     (let smb = a_symbol an
      in if a_signal an \<noteq> ''LONG'' then (False, st)
         else if has_open_position st smb then (False, st)
         else
           let symbol_config = get_or (a_config an) empty_config;
               lev = get_or (cfg_leverage symbol_config) 10
           in case a_current_price an of
                None \<Rightarrow> (False, st)
              | Some current_price \<Rightarrow>
                  if \<not> set_leverage_ok ex then (False, st)
                  else
                    let qty = calculate_position_size cfg smb current_price
                    in case calculate_take_profit_stop_loss cfg smb current_price ''LONG'' of
                         (tp, sl) \<Rightarrow>
                           if \<not> place_market_order_ok ex then (False, st)
                           else (True, snd (add_position st stamp isots smb ''LONG'' qty
                                              current_price lev tp sl (a_rsi an))))"

section \<open>Reference statements and sample data\<close>

definition percentBelowLowerBand :: "real \<Rightarrow> real \<Rightarrow> real" where
  \<comment> \<open>the specification's wording: \<open>((lowerBand - price) / lowerBand) * 100\<close>, and 0 when
      \<open>lowerBand\<close> is 0\<close>
  "percentBelowLowerBand price lowerBand =
     (if lowerBand = 0 then 0 else ((lowerBand - price) / lowerBand) * 100)"

definition mk_candle :: "int \<Rightarrow> real \<Rightarrow> candle" where
  "mk_candle t c = \<lparr>timestamp = t, open_price = c, high = c, low = c, close = c, volume = 1\<rparr>"

definition bars :: "real list \<Rightarrow> candle list" where
  \<comment> \<open>15-minute candles with the given closes\<close>
  "bars cs = map (\<lambda>(i, c). mk_candle (900 * int i) c) (enumerate 0 cs)"

definition btc_config :: symbol_config where
  "btc_config = \<lparr>enabled = Some True, cfg_leverage = Some 10, trade_volume = Some 20,
     rsi_long_threshold = Some 30, shadow_distance_threshold = Some (3 / 2),
     take_profit_percent = Some 2, stop_loss_percent = Some 1\<rparr>"

definition cfg_btc :: config where
  "cfg_btc = [''BTCUSDT'' \<mapsto> btc_config]"

definition btc_open :: position where
  "btc_open = \<lparr>side = ''LONG'', entry_price = 100, pos_id = ''BTCUSDT_20240101_000000'',
     symbol = ''BTCUSDT'', quantity = Some (1 / 5), leverage = 10, take_profit = 102,
     stop_loss = 99, rsi_at_entry = Some 25, entry_time = ''2024-01-01T00:00:00'',
     status = ''OPEN'', exit_price = None, exit_time = None, pnl = Some 0, pnl_percent = 0,
     exit_reason = None\<rparr>"

definition store_open :: store where
  "store_open = [(''BTCUSDT_20240101_000000'', btc_open)]"

definition finite_nonneg :: "npfloat list \<Rightarrow> bool" where
  \<comment> \<open>every entry is a number, and none is negative\<close>
  "finite_nonneg s = (\<forall>v \<in> set s. \<exists>x. v = Some x \<and> 0 \<le> x)"

definition zero_closes :: "real list" where
  \<comment> \<open>21 closes whose last bar falls to 0\<close>
  "zero_closes = [2, 2, 3, 3, 3, 3, 4, 4, 4, 4, 4, 4, 4, 4, 4, 4, 4, 4, 4, 4, 0]"

definition drop_closes :: "real list" where
  \<comment> \<open>21 closes whose last bar falls from 52 to 48\<close>
  "drop_closes = [50, 50, 51, 51, 51, 51, 52, 52, 52, 52, 52, 52, 52, 52, 52, 52, 52, 52, 52,
     52, 48]"

definition zero_analysis :: analysis where
  "zero_analysis = \<lparr>a_symbol = ''BTCUSDT'', a_signal = ''LONG'',
     a_reason = Long_met 0 30 (Some 100), a_rsi = Some 0, a_bb_upper = Some (11 / 2),
     a_bb_middle = Some (7 / 2), a_bb_lower = Some (3 / 2), a_current_price = Some 0,
     a_distance_from_bb_lower = Some 100, a_config = Some btc_config\<rparr>"

definition drop_analysis :: analysis where
  "drop_analysis = \<lparr>a_symbol = ''BTCUSDT'', a_signal = ''LONG'',
     a_reason = Long_met 0 30 (Some (100 / 33)), a_rsi = Some 0, a_bb_upper = Some (107 / 2),
     a_bb_middle = Some (103 / 2), a_bb_lower = Some (99 / 2), a_current_price = Some 48,
     a_distance_from_bb_lower = Some (100 / 33), a_config = Some btc_config\<rparr>"

definition zero_pos :: bt_position where
  "zero_pos = \<lparr>side = ''LONG'', entry_price = 0, bp_symbol = ''BTCUSDT'',
     bp_entry_time = 18000, bp_quantity = None, bp_take_profit = 0, bp_stop_loss = 0,
     bp_rsi_at_entry = Some 0, bp_leverage = 10\<rparr>"

definition drop_pos :: bt_position where
  "drop_pos = \<lparr>side = ''LONG'', entry_price = 48, bp_symbol = ''BTCUSDT'',
     bp_entry_time = 18000, bp_quantity = Some (5 / 12), bp_take_profit = 1224 / 25,
     bp_stop_loss = 1188 / 25, bp_rsi_at_entry = Some 0, bp_leverage = 10\<rparr>"

definition zero_entry :: position_data where
  "zero_entry = \<lparr>side = ''LONG'', entry_price = 0\<rparr>"

definition long_100 :: position_data where
  "long_100 = \<lparr>side = ''LONG'', entry_price = 100\<rparr>"

definition exchange_ok :: exchange where
  "exchange_ok = \<lparr>set_leverage_ok = True, place_market_order_ok = True\<rparr>"

definition rise_closes :: "real list" where
  \<comment> \<open>\<open>drop_closes\<close> and one more bar, which closes at 50\<close>
  "rise_closes = [50, 50, 51, 51, 51, 51, 52, 52, 52, 52, 52, 52, 52, 52, 52, 52, 52, 52, 52,
     52, 48, 50]"

definition rise_trade :: trade where
  "rise_trade = \<lparr>t_symbol = ''BTCUSDT'', t_side = ''LONG'', t_entry_time = 18000,
     t_exit_time = 18900, t_entry_price = 48, t_exit_price = 50, t_quantity = Some (5 / 12),
     t_leverage = 10, t_rsi_at_entry = Some 0, t_pnl_percent = Some (125 / 3),
     t_pnl_usdt = Some (25 / 3), t_exit_reason = Some ''Take Profit'',
     t_duration_minutes = 15\<rparr>"

definition symbol_enabled :: "config \<Rightarrow> string \<Rightarrow> bool" where
  \<comment> \<open>the symbol has a configuration that is not empty and enables it\<close>
  "symbol_enabled cfg smb =
     (get_symbol_config cfg smb \<noteq> empty_config
      \<and> get_or (enabled (get_symbol_config cfg smb)) False)"

definition open_count :: "bt_position option \<Rightarrow> nat" where
  \<comment> \<open>how many positions the loop holds open: the one in its variable, or none\<close>
  "open_count position = (case position of None \<Rightarrow> 0 | Some pos \<Rightarrow> 1)"

fun bt_opens :: "config \<Rightarrow> string \<Rightarrow> candle list \<Rightarrow> nat list \<Rightarrow> bt_state \<Rightarrow> nat" where
  \<comment> \<open>the number of bars, among those listed, at which the loop opens a position\<close>
  "bt_opens cfg smb df [] s = 0"
| "bt_opens cfg smb df (i # is) s =
     (case bt_step cfg smb df i s of
        Inl e \<Rightarrow> 0
      | Inr s' \<Rightarrow> (if snd s = None \<and> snd s' \<noteq> None then 1 else 0)
                  + bt_opens cfg smb df is s')"

section \<open>Verified properties\<close>

subsection \<open>Signal evaluation\<close>

text \<open>
  C5. A candle window shorter than \<open>max(rsi_period, bb_period) = 20\<close> bars makes
  \<open>analyze_symbol\<close> return the signal NONE with the reason "Insufficient data" and no
  indicator value, whatever the symbol and the configuration.
\<close>

theorem analyze_symbol_insufficient_data:
  "length df < 20 \<Longrightarrow>
     max rsi_period bb_period = 20 \<and>
     analyze_symbol cfg smb df =
       Inr \<lparr>a_symbol = smb, a_signal = ''NONE'', a_reason = Text ''Insufficient data'',
            a_rsi = None, a_bb_upper = None, a_bb_middle = None, a_bb_lower = None,
            a_current_price = None, a_distance_from_bb_lower = None, a_config = None\<rparr>"
  by (simp add: analyze_symbol_def rsi_period_def bb_period_def)

theorem analyze_symbol_insufficient_data_witness:
  "length (bars [100, 101, 99]) < 20 \<and>
   analyze_symbol cfg_btc ''BTCUSDT'' (bars [100, 101, 99]) =
       Inr \<lparr>a_symbol = ''BTCUSDT'', a_signal = ''NONE'', a_reason = Text ''Insufficient data'',
            a_rsi = None, a_bb_upper = None, a_bb_middle = None, a_bb_lower = None,
            a_current_price = None, a_distance_from_bb_lower = None, a_config = None\<rparr>"
proof -
  have h: "length (bars [100, 101, 99]) < 20" by (simp add: bars_def)
  show ?thesis using h analyze_symbol_insufficient_data [OF h, of cfg_btc "''BTCUSDT''"] by simp
qed

text \<open>
  C6. \<open>is_long_signal\<close> is true exactly when the RSI is below its threshold and the
  percentage by which the price lies below the lower band reaches the distance threshold;
  with an undefined lower band there is no signal.
\<close>

theorem is_long_signal_iff:
  "is_long_signal rsi price (Some lower_band) rsi_threshold distance_threshold =
     (rsi < rsi_threshold \<and> percentBelowLowerBand price lower_band \<ge> distance_threshold)
   \<and> is_long_signal rsi price None rsi_threshold distance_threshold = False"
  by (simp add: is_long_signal_def calculate_price_distance_from_bb_lower_def
        percentBelowLowerBand_def np_ge_def)

subsection \<open>Position store\<close>

lemma map_of_update_same: "map_of (AList.update k v al) k = Some v"
  by (simp add: AList.update_conv')

text \<open>
  C7. \<open>close_position\<close> raises when the position id is unknown and when the position is
  not OPEN, and leaves the store as it was; a position that has been closed is CLOSED, so
  closing it a second time raises.
\<close>

theorem close_position_errors:
  "(map_of st position_id = None \<longrightarrow>
      close_position st isots position_id exit_pr reason =
        (Inl (ValueError (''Position '' @ position_id @ '' not found'')), st))
   \<and> (\<forall>p. map_of st position_id = Some p \<and> status p \<noteq> ''OPEN'' \<longrightarrow>
      close_position st isots position_id exit_pr reason =
        (Inl (ValueError (''Position '' @ position_id @ '' is not open'')), st))
   \<and> (\<forall>p' st'. close_position st isots position_id exit_pr reason = (Inr p', st') \<longrightarrow>
      status p' = ''CLOSED'' \<and>
      close_position st' isots2 position_id exit_pr2 reason2 =
        (Inl (ValueError (''Position '' @ position_id @ '' is not open'')), st'))"
proof (intro conjI allI impI)
  assume "map_of st position_id = None"
  then show "close_position st isots position_id exit_pr reason =
        (Inl (ValueError (''Position '' @ position_id @ '' not found'')), st)"
    by (simp add: close_position_def)
next
  fix p assume "map_of st position_id = Some p \<and> status p \<noteq> ''OPEN''"
  then show "close_position st isots position_id exit_pr reason =
        (Inl (ValueError (''Position '' @ position_id @ '' is not open'')), st)"
    by (simp add: close_position_def)
next
  fix p' st' assume a: "close_position st isots position_id exit_pr reason = (Inr p', st')"
  then show "status p' = ''CLOSED''"
    by (auto simp: close_position_def Let_def split: option.splits if_splits)
next
  fix p' st' assume a: "close_position st isots position_id exit_pr reason = (Inr p', st')"
  then have 1: "status p' = ''CLOSED''" and 2: "st' = AList.update position_id p' st"
    by (auto simp: close_position_def Let_def split: option.splits if_splits)
  have "map_of st' position_id = Some p'" using 2 by (simp add: map_of_update_same)
  then show "close_position st' isots2 position_id exit_pr2 reason2 =
        (Inl (ValueError (''Position '' @ position_id @ '' is not open'')), st')"
    using 1 by (simp add: close_position_def)
qed

theorem close_position_errors_witness:
  "map_of store_open ''ETHUSDT_20240101_000000'' = None
   \<and> close_position store_open ''2024-01-01T01:00:00'' ''ETHUSDT_20240101_000000'' 102
        ''Take Profit''
       = (Inl (ValueError ''Position ETHUSDT_20240101_000000 not found''), store_open)
   \<and> \<not> isl (fst (close_position store_open ''2024-01-01T01:00:00''
                    ''BTCUSDT_20240101_000000'' 102 ''Take Profit''))
   \<and> close_position
        (snd (close_position store_open ''2024-01-01T01:00:00'' ''BTCUSDT_20240101_000000''
                102 ''Take Profit''))
        ''2024-01-01T02:00:00'' ''BTCUSDT_20240101_000000'' 103 ''Take Profit''
       = (Inl (ValueError ''Position BTCUSDT_20240101_000000 is not open''),
          snd (close_position store_open ''2024-01-01T01:00:00'' ''BTCUSDT_20240101_000000''
                 102 ''Take Profit''))"
proof -
  let ?r = "close_position store_open ''2024-01-01T01:00:00'' ''BTCUSDT_20240101_000000''
              102 ''Take Profit''"
  have h1: "map_of store_open ''ETHUSDT_20240101_000000'' = None"
    by (simp add: store_open_def)
  have isr: "\<not> isl (fst ?r)"
    by (simp add: close_position_def store_open_def btc_open_def upper_def Let_def)
  then have h2: "?r = (Inr (projr (fst ?r)), snd ?r)"
    by (cases "fst ?r") (auto simp: prod_eq_iff)
  note cpe = close_position_errors [of store_open]
  from cpe [of "''ETHUSDT_20240101_000000''" "''2024-01-01T01:00:00''" 102 "''Take Profit''"] h1
  have c1: "close_position store_open ''2024-01-01T01:00:00'' ''ETHUSDT_20240101_000000'' 102
        ''Take Profit''
       = (Inl (ValueError ''Position ETHUSDT_20240101_000000 not found''), store_open)"
    by simp
  from cpe [of "''BTCUSDT_20240101_000000''" "''2024-01-01T01:00:00''" 102 "''Take Profit''"
      "''2024-01-01T02:00:00''" 103 "''Take Profit''"] h2
  have c2: "close_position (snd ?r) ''2024-01-01T02:00:00'' ''BTCUSDT_20240101_000000'' 103
      ''Take Profit''
       = (Inl (ValueError ''Position BTCUSDT_20240101_000000 is not open''), snd ?r)"
    by simp
  show ?thesis using h1 c1 isr c2 by simp
qed

subsection \<open>Relative strength index\<close>

lemma length_diff: "length (diff ps) = length ps"
  by (cases ps) simp_all

lemma gains_nonneg: "finite_nonneg (series_where (\<lambda>d. d > 0) 0 s)"
  by (auto simp: finite_nonneg_def series_where_def split: option.splits)

lemma losses_nonneg: "finite_nonneg (series_neg (series_where (\<lambda>d. d < 0) 0 s))"
  by (auto simp: finite_nonneg_def series_where_def series_neg_def split: option.splits)

lemma valid_finite_nonneg:
  assumes "finite_nonneg s"
  shows "length (valid s) = length s" and "\<forall>x \<in> set (valid s). 0 \<le> x"
proof -
  have "\<forall>v \<in> set s. v \<noteq> None"
    using assms by (auto simp: finite_nonneg_def)
  then have f: "filter (\<lambda>v. v \<noteq> None) s = s"
    by (simp only: filter_id_conv)
  have v: "valid s = map the s" unfolding valid_def f ..
  show "length (valid s) = length s" by (simp add: v)
  show "\<forall>x \<in> set (valid s). 0 \<le> x"
    using assms by (auto simp: v finite_nonneg_def)
qed

lemma window_finite_nonneg: "finite_nonneg s \<Longrightarrow> finite_nonneg (window_at w s i)"
  by (auto simp: finite_nonneg_def window_at_def dest!: in_set_dropD in_set_takeD)

lemma window_nonempty: "1 \<le> w \<Longrightarrow> i < length s \<Longrightarrow> window_at w s i \<noteq> []"
  by (auto simp: window_at_def)

lemma rolling_mean_nonneg:
  assumes "finite_nonneg s" and "1 \<le> w"
  shows "finite_nonneg (rolling_mean w 1 s)"
  unfolding finite_nonneg_def
proof
  fix v assume "v \<in> set (rolling_mean w 1 s)"
  then obtain i where i: "i < length s"
    and v: "v = (let vs = valid (window_at w s i)
                 in if length vs \<ge> 1 \<and> vs \<noteq> [] then Some (sum_list vs / real (length vs))
                    else None)"
    by (auto simp: rolling_mean_def)
  let ?vs = "valid (window_at w s i)"
  have wn: "finite_nonneg (window_at w s i)" using assms(1) by (rule window_finite_nonneg)
  have len: "length ?vs = length (window_at w s i)" using valid_finite_nonneg(1)[OF wn] .
  have ne: "?vs \<noteq> []" using window_nonempty[OF assms(2) i] len by auto
  have pos: "\<forall>x \<in> set ?vs. 0 \<le> x" using valid_finite_nonneg(2)[OF wn] .
  have "0 \<le> sum_list ?vs" using pos by (simp add: sum_list_nonneg)
  then have "0 \<le> sum_list ?vs / real (length ?vs)" by simp
  moreover have "v = Some (sum_list ?vs / real (length ?vs))"
    using v ne by (simp add: Let_def Suc_le_eq)
  ultimately show "\<exists>x. v = Some x \<and> 0 \<le> x" by blast
qed

lemma length_rolling_mean: "length (rolling_mean w mp s) = length s"
  by (simp add: rolling_mean_def)

lemma div_eps_nonneg:
  assumes "finite_nonneg a" and "finite_nonneg b"
  shows "finite_nonneg (series_div_eps a b)"
  unfolding finite_nonneg_def
proof
  fix v assume "v \<in> set (series_div_eps a b)"
  then obtain x y where xy: "(x, y) \<in> set (zip a b)"
    and v: "v = (case (x, y) of (Some g, Some l) \<Rightarrow> np_div g (l + 1 / 10000000000) | _ \<Rightarrow> None)"
    by (auto simp: series_div_eps_def)
  from xy have "x \<in> set a" "y \<in> set b" by (auto dest: set_zip_leftD set_zip_rightD)
  then have "\<exists>g. x = Some g \<and> 0 \<le> g" "\<exists>l. y = Some l \<and> 0 \<le> l"
    using assms by (simp_all add: finite_nonneg_def)
  then obtain g l where gl: "x = Some g" "0 \<le> g" "y = Some l" "0 \<le> l"
    by blast
  have "l + 1 / 10000000000 > 0" using gl(4) by simp
  then have "v = Some (g / (l + 1 / 10000000000))" "0 \<le> g / (l + 1 / 10000000000)"
    using v gl by (simp_all add: np_div_def)
  then show "\<exists>x. v = Some x \<and> 0 \<le> x" by blast
qed

lemma rsi_value_bounds:
  assumes "0 \<le> (r::real)"
  shows "0 \<le> 100 - 100 / (1 + r)" and "100 - 100 / (1 + r) \<le> 100"
proof -
  have p: "0 < 1 + r" using assms by simp
  have "100 / (1 + r) \<le> 100" using assms p by (simp add: divide_le_eq)
  then show "0 \<le> 100 - 100 / (1 + r)" by simp
  have "0 \<le> 100 / (1 + r)" using p by simp
  then show "100 - 100 / (1 + r) \<le> 100" by simp
qed

lemma series_rsi_bounds:
  assumes "finite_nonneg rs"
  shows "\<forall>v \<in> set (series_rsi rs). \<exists>x. v = Some x \<and> 0 \<le> x \<and> x \<le> 100"
proof
  fix v assume "v \<in> set (series_rsi rs)"
  then obtain u where u: "u \<in> set rs"
    and v: "v = (case u of None \<Rightarrow> None
                 | Some r \<Rightarrow> map_option (\<lambda>q. 100 - q) (np_div 100 (1 + r)))"
    by (auto simp: series_rsi_def)
  from u assms obtain r where r: "u = Some r" "0 \<le> r" by (auto simp: finite_nonneg_def)
  have "1 + r \<noteq> 0" using r(2) by simp
  then have "v = Some (100 - 100 / (1 + r))" using v r(1) by (simp add: np_div_def)
  then show "\<exists>x. v = Some x \<and> 0 \<le> x \<and> x \<le> 100"
    using rsi_value_bounds[OF r(2)] by blast
qed

text \<open>
  C9. For every close series and every period of at least 1, \<open>calculate_rsi\<close> returns a
  series as long as the input whose values all lie between 0 and 100.
\<close>

theorem calculate_rsi_bounded:
  assumes "1 \<le> period"
  shows "\<exists>rsi. calculate_rsi prices period = Inr rsi \<and> length rsi = length prices \<and>
           (\<forall>v \<in> set rsi. 0 \<le> v \<and> v \<le> 100)"
proof -
  let ?delta = "diff prices"
  let ?gains = "series_where (\<lambda>d. d > 0) 0 ?delta"
  let ?losses = "series_neg (series_where (\<lambda>d. d < 0) 0 ?delta)"
  let ?ag = "rolling_mean (nat period) 1 ?gains"
  let ?al = "rolling_mean (nat period) 1 ?losses"
  let ?rs = "series_div_eps ?ag ?al"
  let ?rsi = "fillna 50 (series_rsi ?rs)"
  have w: "1 \<le> nat period" using assms by simp
  have eq: "calculate_rsi prices period = Inr ?rsi"
    using assms by (simp add: calculate_rsi_def Let_def)
  have len: "length ?rsi = length prices"
    by (simp add: fillna_def series_rsi_def series_div_eps_def length_rolling_mean
          series_neg_def series_where_def length_diff)
  have "finite_nonneg ?rs"
    by (intro div_eps_nonneg rolling_mean_nonneg gains_nonneg losses_nonneg w)
  then have "\<forall>v \<in> set (series_rsi ?rs). \<exists>x. v = Some x \<and> 0 \<le> x \<and> x \<le> 100"
    by (rule series_rsi_bounds)
  then have "\<forall>v \<in> set ?rsi. 0 \<le> v \<and> v \<le> 100"
    by (auto simp: fillna_def get_or_def)
  with eq len show ?thesis by blast
qed

theorem calculate_rsi_bounded_witness:
  "(1::int) \<le> 6 \<and> length (projr (calculate_rsi [100, 102, 101] 6)) = 3 \<and>
   0 \<le> projr (calculate_rsi [100, 102, 101] 6) ! 1 \<and>
   projr (calculate_rsi [100, 102, 101] 6) ! 1 \<le> 100"
proof -
  have h: "(1::int) \<le> 6" by simp
  from calculate_rsi_bounded [OF h, of "[100, 102, 101]"]
  obtain rsi where r: "calculate_rsi [100, 102, 101] 6 = Inr rsi" "length rsi = 3"
    "\<forall>v \<in> set rsi. 0 \<le> v \<and> v \<le> 100" by auto
  have "rsi ! 1 \<in> set rsi" using r(2) by simp
  then have "0 \<le> rsi ! 1 \<and> rsi ! 1 \<le> 100" using r(3) by blast
  then show ?thesis using r(1) r(2) by simp
qed

lemma map_const_replicate: "(\<forall>x \<in> set xs. f x = c) \<Longrightarrow> map f xs = replicate (length xs) c"
  by (induction xs) simp_all

lemma rolling_mean_first:
  assumes "1 \<le> w"
  shows "\<exists>t. rolling_mean w 1 (Some x # s) = Some x # t"
proof -
  have u: "[0..<length (Some x # s)] = 0 # [Suc 0..<Suc (length s)]"
    by (simp add: upt_conv_Cons del: upt_Suc)
  have f0: "(let vs = valid (window_at w (Some x # s) 0)
             in if length vs \<ge> 1 \<and> vs \<noteq> [] then Some (sum_list vs / real (length vs))
                else None) = Some x"
    using assms by (simp add: window_at_def valid_def)
  show ?thesis
    unfolding rolling_mean_def u by (simp only: list.map f0) blast
qed

lemma zip_replicate_Cons: "zip (c # replicate m c) (replicate m d) = replicate m (c, d)"
  by (induction m) simp_all

lemma diff_replicate: "diff (replicate (Suc m) c) = None # replicate m (Some 0)"
  by (simp add: zip_replicate_Cons)

lemma rolling_mean_zeros:
  assumes "1 \<le> w"
  shows "rolling_mean w 1 (replicate k (Some 0)) = replicate k (Some 0)"
proof -
  have "\<forall>i \<in> set [0..<k].
          (let vs = valid (window_at w (replicate k (Some 0)) i)
           in if length vs \<ge> 1 \<and> vs \<noteq> [] then Some (sum_list vs / real (length vs))
              else None) = Some 0"
  proof
    fix i assume "i \<in> set [0..<k]"
    then have i: "i < k" by simp
    let ?j = "min (Suc i) k - (Suc i - w)"
    have win: "window_at w (replicate k (Some (0::real))) i = replicate ?j (Some 0)"
      by (simp add: window_at_def)
    have j: "1 \<le> ?j" using i assms by auto
    have v: "valid (replicate ?j (Some (0::real))) = replicate ?j 0"
      by (simp add: valid_def)
    have ne: "replicate ?j (0::real) \<noteq> []" using j by auto
    have s0: "sum_list (replicate ?j (0::real)) = 0" by (simp add: sum_list_replicate)
    show "(let vs = valid (window_at w (replicate k (Some 0)) i)
           in if length vs \<ge> 1 \<and> vs \<noteq> [] then Some (sum_list vs / real (length vs))
              else None) = Some 0"
      unfolding win v Let_def using j ne s0 by simp
  qed
  then have "map (\<lambda>i. let vs = valid (window_at w (replicate k (Some 0)) i)
                   in if length vs \<ge> 1 \<and> vs \<noteq> []
                      then Some (sum_list vs / real (length vs)) else None) [0..<k]
             = replicate (length [0..<k]) (Some 0)"
    by (rule map_const_replicate)
  then show ?thesis
    unfolding rolling_mean_def by simp
qed

lemma calculate_rsi_flat:
  assumes "1 \<le> period"
  shows "calculate_rsi (replicate n c) period = Inr (replicate n 0)"
proof (cases n)
  case 0
  then show ?thesis using assms
    by (simp add: calculate_rsi_def series_where_def series_neg_def rolling_mean_def
          series_div_eps_def series_rsi_def fillna_def)
next
  case (Suc m)
  have w: "1 \<le> nat period" using assms by simp
  have g: "series_where (\<lambda>d. d > 0) 0 (diff (replicate (Suc m) c)) = replicate (Suc m) (Some 0)"
    unfolding diff_replicate series_where_def by simp
  have l: "series_neg (series_where (\<lambda>d. d < 0) 0 (diff (replicate (Suc m) c)))
             = replicate (Suc m) (Some 0)"
    unfolding diff_replicate series_where_def series_neg_def by simp
  have d: "series_div_eps (replicate (Suc m) (Some 0)) (replicate (Suc m) (Some 0))
             = replicate (Suc m) (Some 0)"
    unfolding series_div_eps_def zip_replicate by (simp add: np_div_def)
  have r: "fillna 50 (series_rsi (replicate (Suc m) (Some 0))) = replicate (Suc m) 0"
    by (simp add: series_rsi_def fillna_def np_div_def get_or_def)
  show ?thesis
    using assms unfolding Suc calculate_rsi_def Let_def g l rolling_mean_zeros [OF w] d r
    by simp
qed

text \<open>
  C2. The neutral value 50 is what \<open>fillna(50)\<close> would put where the RSI is undefined. No
  value is undefined when it is reached: \<open>where(..., 0)\<close> has turned the first bar's NaN
  change into a gain and a loss of 0, and the \<open>1e-10\<close> in the divisor makes \<open>rs = 0\<close> of
  it. So the first bar of every series, and every bar of a flat series, has the RSI 0.
\<close>

theorem calculate_rsi_no_movement_is_zero:
  "(\<exists>r. calculate_rsi (c # cs) 6 = Inr (0 # r))
   \<and> calculate_rsi (replicate n c) 6 = Inr (replicate n 0)
   \<and> calculate_rsi [100] 6 = Inr [0]
   \<and> calculate_rsi [100, 100, 100] 6 = Inr [0, 0, 0]"
proof (intro conjI)
  have w: "1 \<le> nat 6" by simp
  let ?delta = "diff (c # cs)"
  obtain g where g: "series_where (\<lambda>d. d > 0) 0 ?delta = Some 0 # g"
    by (simp add: series_where_def)
  obtain l where l: "series_neg (series_where (\<lambda>d. d < 0) 0 ?delta) = Some 0 # l"
    by (simp add: series_where_def series_neg_def)
  obtain ag where ag: "rolling_mean (nat 6) 1 (Some 0 # g) = Some 0 # ag"
    using rolling_mean_first [OF w] by blast
  obtain al where al: "rolling_mean (nat 6) 1 (Some 0 # l) = Some 0 # al"
    using rolling_mean_first [OF w] by blast
  show "\<exists>r. calculate_rsi (c # cs) 6 = Inr (0 # r)"
    unfolding calculate_rsi_def Let_def g l ag al
    by (simp add: series_div_eps_def series_rsi_def fillna_def np_div_def get_or_def)
  show "calculate_rsi (replicate n c) 6 = Inr (replicate n 0)"
    by (rule calculate_rsi_flat) simp
  have "calculate_rsi (replicate 1 100) 6 = Inr (replicate 1 0)"
    by (rule calculate_rsi_flat) simp
  then show "calculate_rsi [100] 6 = Inr [0]" by simp
  have "calculate_rsi (replicate 3 100) 6 = Inr (replicate 3 0)"
    by (rule calculate_rsi_flat) simp
  then show "calculate_rsi [100, 100, 100] 6 = Inr [0, 0, 0]"
    by (simp add: numeral_3_eq_3)
qed

subsection \<open>Opening a position\<close>

text \<open>
  C1. \<open>add_position\<close> has no check for an OPEN position of the same symbol: with one in the
  store it still returns the new id and stores a second OPEN position.
\<close>

theorem add_position_accepts_duplicate:
  "has_open_position store_open ''BTCUSDT''
   \<and> fst (add_position store_open ''20240101_000100'' ''2024-01-01T00:01:00'' ''BTCUSDT''
            ''LONG'' (Some (1 / 5)) 100 10 102 99 (Some 25)) = Inr ''BTCUSDT_20240101_000100''
   \<and> map symbol (get_open_positions
        (snd (add_position store_open ''20240101_000100'' ''2024-01-01T00:01:00'' ''BTCUSDT''
                ''LONG'' (Some (1 / 5)) 100 10 102 99 (Some 25))))
       = [''BTCUSDT'', ''BTCUSDT'']"
  by (simp add: has_open_position_def get_position_by_symbol_def get_open_positions_def
        store_open_def btc_open_def add_position_def Let_def)

text \<open>
  C1, as the code has it. \<open>add_position\<close> never fails: it returns the id made of the symbol
  and the time stamp and stores the position as OPEN under it. The check for an open
  position is the caller's: \<open>execute_trade\<close> returns \<open>False\<close> and leaves the store alone
  when the symbol has one.
\<close>

theorem add_position_always_succeeds:
  "fst (add_position st stamp isots smb sd qty entry lev tp sl rsi) = Inr (smb @ ''_'' @ stamp)
   \<and> (\<exists>p. map_of (snd (add_position st stamp isots smb sd qty entry lev tp sl rsi))
              (smb @ ''_'' @ stamp) = Some p \<and> status p = ''OPEN'' \<and> symbol p = smb)
   \<and> (has_open_position st0 (a_symbol an) \<longrightarrow>
        execute_trade cfg st0 ex stamp0 isots0 an = (False, st0))"
  by (simp add: add_position_def map_of_update_same execute_trade_def Let_def)

theorem add_position_always_succeeds_witness:
  "has_open_position store_open (a_symbol drop_analysis)
   \<and> execute_trade cfg_btc store_open exchange_ok ''20240101_000100'' ''2024-01-01T00:01:00''
        drop_analysis = (False, store_open)
   \<and> fst (add_position [] ''20240101_000100'' ''2024-01-01T00:01:00'' ''BTCUSDT''
            ''LONG'' (Some (1 / 5)) 100 10 102 99 (Some 25)) = Inr ''BTCUSDT_20240101_000100''"
proof -
  have h: "has_open_position store_open (a_symbol drop_analysis)"
    by (simp add: has_open_position_def get_position_by_symbol_def get_open_positions_def
          store_open_def btc_open_def drop_analysis_def)
  from add_position_always_succeeds [of "[]" "''20240101_000100''" "''2024-01-01T00:01:00''"
      "''BTCUSDT''" "''LONG''" "Some (1 / 5)" 100 10 102 99 "Some 25" store_open drop_analysis
      cfg_btc exchange_ok "''20240101_000100''" "''2024-01-01T00:01:00''"] h
  show ?thesis by simp
qed

subsection \<open>Exit check\<close>

text \<open>
  C4. A LONG position with the entry price 0 is never closed: the check stops at its
  guard, although the price 5 is above the take-profit level \<open>0 * 1.02\<close>.
\<close>

theorem should_close_position_zero_entry:
  "upper (side zero_entry) = ''LONG''
   \<and> 5 \<ge> entry_price zero_entry
            * (1 + get_or (take_profit_percent (get_symbol_config cfg_btc ''BTCUSDT'')) 2 / 100)
   \<and> should_close_position cfg_btc ''BTCUSDT'' zero_entry 5
       = (False, ''No entry price available'')"
  by (simp add: zero_entry_def upper_def should_close_position_def)

text \<open>
  C4, as the code has it. For a LONG position with an entry price other than 0 the check
  closes with "Take Profit" when the price is at or above \<open>entry * (1 + tp / 100)\<close>,
  otherwise with "Stop Loss" when it is at or below \<open>entry * (1 - sl / 100)\<close>, and holds
  otherwise; with the entry price 0 it holds.
\<close>

theorem should_close_position_long:
  assumes "upper (side pd) = ''LONG''"
  shows "should_close_position cfg smb pd price =
     (if entry_price pd = 0 then (False, ''No entry price available'')
      else if price \<ge> entry_price pd
                  * (1 + get_or (take_profit_percent (get_symbol_config cfg smb)) 2 / 100)
           then (True, ''Take Profit'')
      else if price \<le> entry_price pd
                  * (1 - get_or (stop_loss_percent (get_symbol_config cfg smb)) 1 / 100)
           then (True, ''Stop Loss'')
      else (False, ''No exit signal''))"
  using assms
  by (simp add: should_close_position_def calculate_take_profit_stop_loss_def Let_def)

theorem should_close_position_long_witness:
  "upper (side long_100) = ''LONG''
   \<and> should_close_position cfg_btc ''BTCUSDT'' long_100 102 = (True, ''Take Profit'')
   \<and> should_close_position cfg_btc ''BTCUSDT'' long_100 99 = (True, ''Stop Loss'')
   \<and> should_close_position cfg_btc ''BTCUSDT'' long_100 100 = (False, ''No exit signal'')
   \<and> should_close_position cfg_btc ''BTCUSDT'' (long_100\<lparr>entry_price := - 100\<rparr>) (- 100)
       = (True, ''Take Profit'')"
proof -
  have h: "upper (side long_100) = ''LONG''" by (simp add: long_100_def upper_def)
  have h': "upper (side (long_100\<lparr>entry_price := - 100\<rparr>)) = ''LONG''"
    by (simp add: long_100_def upper_def)
  note d = long_100_def cfg_btc_def btc_config_def get_symbol_config_def get_or_def
  show ?thesis
    using h should_close_position_long [OF h, of cfg_btc "''BTCUSDT''" 102]
      should_close_position_long [OF h, of cfg_btc "''BTCUSDT''" 99]
      should_close_position_long [OF h, of cfg_btc "''BTCUSDT''" 100]
      should_close_position_long [OF h', of cfg_btc "''BTCUSDT''" "- 100"]
    by (simp add: d)
qed

subsection \<open>Two sample runs\<close>

lemmas indicator_defs = calculate_rsi_def series_where_def series_neg_def rolling_mean_def
  window_at_def valid_def series_div_eps_def series_rsi_def fillna_def get_or_def np_div_def
  upt_conv_Cons calculate_bollinger_bands_def rolling_std_def sample_std_def series_scale_def
  series_add_def series_sub_def power2_eq_square analyze_symbol_def rsi_period_def
  bb_period_def bb_std_dev_def get_symbol_config_def cfg_btc_def btc_config_def
  empty_config_def is_long_signal_def calculate_price_distance_from_bb_lower_def np_ge_def
  np_lt_def bars_def mk_candle_def enumerate_eq_zip Let_def

lemma analyze_zero_closes:
  "analyze_symbol cfg_btc ''BTCUSDT'' (bars zero_closes) = Inr zero_analysis"
  by (simp add: zero_closes_def zero_analysis_def indicator_defs)

lemma analyze_drop_closes:
  "analyze_symbol cfg_btc ''BTCUSDT'' (bars drop_closes) = Inr drop_analysis"
  by (simp add: drop_closes_def drop_analysis_def indicator_defs)

lemma length_bars: "length (bars cs) = length cs"
  by (simp add: bars_def)

lemma timestamp_bars: "i < length cs \<Longrightarrow> timestamp (bars cs ! i) = 900 * int i"
  by (simp add: bars_def mk_candle_def nth_enumerate_eq)

lemma bt_open_zero: "bt_open cfg_btc ''BTCUSDT'' 18000 zero_analysis = Inr zero_pos"
  by (simp add: bt_open_def zero_analysis_def zero_pos_def calculate_position_size_def
        calculate_take_profit_stop_loss_def get_symbol_config_def cfg_btc_def btc_config_def
        get_or_def np_div_def upper_def Let_def)

lemma bt_open_drop: "bt_open cfg_btc ''BTCUSDT'' 18000 drop_analysis = Inr drop_pos"
  by (simp add: bt_open_def drop_analysis_def drop_pos_def calculate_position_size_def
        calculate_take_profit_stop_loss_def get_symbol_config_def cfg_btc_def btc_config_def
        get_or_def np_div_def upper_def Let_def)

lemma bt_step_zero_closes:
  "bt_step cfg_btc ''BTCUSDT'' (bars zero_closes) 20 ([], None) = Inr ([], Some zero_pos)"
proof -
  have l: "length zero_closes = 21" by (simp add: zero_closes_def)
  have t: "take (20 + 1) (bars zero_closes) = bars zero_closes"
    by (simp add: length_bars l)
  have ts: "timestamp (bars zero_closes ! 20) = 18000"
    by (simp add: timestamp_bars l)
  have s: "a_signal zero_analysis = ''LONG''" by (simp add: zero_analysis_def)
  show ?thesis
    apply (simp only: bt_step.simps Let_def t ts analyze_zero_closes sum.case option.case s
          bt_open_zero)
    apply simp
    done
qed

lemma bt_step_drop_closes:
  "bt_step cfg_btc ''BTCUSDT'' (bars drop_closes) 20 ([], None) = Inr ([], Some drop_pos)"
proof -
  have l: "length drop_closes = 21" by (simp add: drop_closes_def)
  have t: "take (20 + 1) (bars drop_closes) = bars drop_closes"
    by (simp add: length_bars l)
  have ts: "timestamp (bars drop_closes ! 20) = 18000"
    by (simp add: timestamp_bars l)
  have s: "a_signal drop_analysis = ''LONG''" by (simp add: drop_analysis_def)
  show ?thesis
    apply (simp only: bt_step.simps Let_def t ts analyze_drop_closes sum.case option.case s
          bt_open_drop)
    apply simp
    done
qed

subsection \<open>Positions opened by the backtest and by the live path\<close>

declare bt_step.simps [simp del]

lemma bt_step_opens:
  assumes "bt_step cfg smb df i (ts, None) = Inr (ts', Some p)"
  shows "\<exists>an. bt_open cfg smb (timestamp (df ! i)) an = Inr p"
  using assms
  by (auto simp: bt_step.simps Let_def split: sum.splits if_splits)

lemma bt_open_fields:
  assumes "bt_open cfg smb t an = Inr p"
  shows "side p = ''LONG''"
    and "a_current_price an = Some (entry_price p)"
    and "bp_quantity p = calculate_position_size cfg smb (entry_price p)"
    and "bp_take_profit p = entry_price p
            * (1 + get_or (take_profit_percent (get_symbol_config cfg smb)) 2 / 100)"
    and "bp_stop_loss p = entry_price p
            * (1 - get_or (stop_loss_percent (get_symbol_config cfg smb)) 1 / 100)"
  using assms
  by (auto simp: bt_open_def calculate_take_profit_stop_loss_def upper_def Let_def
        split: option.splits)

lemma upper_LONG: "upper ''LONG'' = ''LONG''"
  by (simp add: upper_def)

lemma np_mul_np_div: "b \<noteq> 0 \<Longrightarrow> np_mul (np_div a b) b = Some a"
  by (simp add: np_mul_def np_div_def)

text \<open>
  C3. The backtest opens a position at the close 0 of the bar that ends \<open>zero_closes\<close>. At
  the price 1 its own exit test closes the position with "Take Profit", and
  \<open>should_close_position\<close> holds it, for want of an entry price.
\<close>

theorem backtest_exit_differs_at_zero_entry:
  "bt_step cfg_btc ''BTCUSDT'' (bars zero_closes) 20 ([], None) = Inr ([], Some zero_pos)
   \<and> bt_exit_check zero_pos 1 = (True, Some ''Take Profit'')
   \<and> should_close_position cfg_btc ''BTCUSDT'' zero_pos 1
       = (False, ''No entry price available'')"
  by (simp add: bt_step_zero_closes)
     (simp add: bt_exit_check_def should_close_position_def zero_pos_def)

text \<open>
  C3, as the code has it. For a position that the backtest opened at an entry price other
  than 0, under the configuration it was opened with, the backtest's exit test and
  \<open>should_close_position\<close> decide alike at every price: both close, with the same reason,
  or both hold.
\<close>

theorem backtest_exit_matches_live:
  assumes "bt_step cfg smb df i (ts, None) = Inr (ts', Some p)"
    and "entry_price p \<noteq> 0"
  shows "fst (bt_exit_check p price) = fst (should_close_position cfg smb p price)
         \<and> (fst (bt_exit_check p price) \<longrightarrow>
              snd (bt_exit_check p price) = Some (snd (should_close_position cfg smb p price)))"
proof -
  from bt_step_opens [OF assms(1)] obtain an
    where an: "bt_open cfg smb (timestamp (df ! i)) an = Inr p" by blast
  note f = bt_open_fields [OF an]
  show ?thesis
    using assms(2)
    by (simp add: bt_exit_check_def should_close_position_def
          calculate_take_profit_stop_loss_def f(1) f(4) f(5) upper_LONG Let_def)
qed

theorem backtest_exit_matches_live_witness:
  "bt_step cfg_btc ''BTCUSDT'' (bars drop_closes) 20 ([], None) = Inr ([], Some drop_pos)
   \<and> entry_price drop_pos \<noteq> 0
   \<and> bt_exit_check drop_pos (1224 / 25) = (True, Some ''Take Profit'')
   \<and> fst (should_close_position cfg_btc ''BTCUSDT'' drop_pos (1224 / 25))
   \<and> Some (snd (should_close_position cfg_btc ''BTCUSDT'' drop_pos (1224 / 25)))
       = Some ''Take Profit''
   \<and> bt_exit_check drop_pos 50 = (True, Some ''Take Profit'')
   \<and> bt_exit_check drop_pos 47 = (True, Some ''Stop Loss'')
   \<and> fst (should_close_position cfg_btc ''BTCUSDT'' drop_pos 47)
   \<and> Some (snd (should_close_position cfg_btc ''BTCUSDT'' drop_pos 47)) = Some ''Stop Loss''
   \<and> bt_exit_check drop_pos 48 = (False, None)
   \<and> \<not> fst (should_close_position cfg_btc ''BTCUSDT'' drop_pos 48)"
proof -
  have h1: "bt_step cfg_btc ''BTCUSDT'' (bars drop_closes) 20 ([], None)
              = Inr ([], Some drop_pos)" by (rule bt_step_drop_closes)
  have h2: "entry_price drop_pos \<noteq> 0" by (simp add: drop_pos_def)
  have e1: "bt_exit_check drop_pos (1224 / 25) = (True, Some ''Take Profit'')"
    and e2: "bt_exit_check drop_pos 50 = (True, Some ''Take Profit'')"
    and e3: "bt_exit_check drop_pos 47 = (True, Some ''Stop Loss'')"
    and e4: "bt_exit_check drop_pos 48 = (False, None)"
    by (simp_all add: bt_exit_check_def drop_pos_def)
  show ?thesis
    using h1 h2 e1 e2 e3 e4
      backtest_exit_matches_live [OF h1 h2, of "1224 / 25"]
      backtest_exit_matches_live [OF h1 h2, of 47]
      backtest_exit_matches_live [OF h1 h2, of 48]
    by simp
qed

text \<open>
  C8. The position that the backtest opens at the close 0 has a quantity that is not a
  finite number (20 divided by 0), so quantity times entry price is not the trade volume.
\<close>

theorem position_size_at_zero_price:
  "bt_step cfg_btc ''BTCUSDT'' (bars zero_closes) 20 ([], None) = Inr ([], Some zero_pos)
   \<and> get_or (trade_volume (get_symbol_config cfg_btc ''BTCUSDT'')) 20 = 20
   \<and> bp_quantity zero_pos = None
   \<and> np_mul (bp_quantity zero_pos) (entry_price zero_pos) \<noteq> Some 20"
  by (simp add: bt_step_zero_closes)
     (simp add: zero_pos_def np_mul_def get_or_def get_symbol_config_def cfg_btc_def
        btc_config_def)

text \<open>
  C8, as the code has it. For every position opened at a price other than 0, by the backtest
  or by \<open>execute_trade\<close>, quantity times entry price is the configured trade volume (20
  when the configuration has none).
\<close>

theorem quantity_times_entry_price:
  "(bt_step cfg smb df i (ts, None) = Inr (ts', Some p) \<and> entry_price p \<noteq> 0 \<longrightarrow>
      np_mul (bp_quantity p) (entry_price p)
        = Some (get_or (trade_volume (get_symbol_config cfg smb)) 20))
   \<and> (execute_trade cfg st ex stamp isots an = (True, st') \<and> a_current_price an \<noteq> Some 0 \<longrightarrow>
      (\<exists>q. map_of st' (a_symbol an @ ''_'' @ stamp) = Some q
           \<and> a_current_price an = Some (entry_price q) \<and> status q = ''OPEN''
           \<and> np_mul (quantity q) (entry_price q)
               = Some (get_or (trade_volume (get_symbol_config cfg (a_symbol an))) 20)))"
proof (intro conjI impI)
  assume a: "bt_step cfg smb df i (ts, None) = Inr (ts', Some p) \<and> entry_price p \<noteq> 0"
  then obtain an' where an: "bt_open cfg smb (timestamp (df ! i)) an' = Inr p"
    using bt_step_opens by blast
  show "np_mul (bp_quantity p) (entry_price p)
          = Some (get_or (trade_volume (get_symbol_config cfg smb)) 20)"
    using a by (simp add: bt_open_fields(3) [OF an] calculate_position_size_def Let_def
                  np_mul_np_div)
next
  assume a: "execute_trade cfg st ex stamp isots an = (True, st')
             \<and> a_current_price an \<noteq> Some 0"
  then obtain price where pr: "a_current_price an = Some price" "price \<noteq> 0"
    by (cases "a_current_price an") (auto simp: execute_trade_def Let_def split: if_splits)
  let ?q = "\<lparr>side = ''LONG'', entry_price = price, pos_id = a_symbol an @ ''_'' @ stamp,
     symbol = a_symbol an,
     quantity = calculate_position_size cfg (a_symbol an) price,
     leverage = get_or (cfg_leverage (get_or (a_config an) empty_config)) 10,
     take_profit = fst (calculate_take_profit_stop_loss cfg (a_symbol an) price ''LONG''),
     stop_loss = snd (calculate_take_profit_stop_loss cfg (a_symbol an) price ''LONG''),
     rsi_at_entry = a_rsi an, entry_time = isots, status = ''OPEN'', exit_price = None,
     exit_time = None, pnl = Some 0, pnl_percent = 0, exit_reason = None\<rparr>"
  have st': "st' = AList.update (a_symbol an @ ''_'' @ stamp) ?q st"
    using a pr
    by (auto simp: execute_trade_def add_position_def Let_def split: if_splits prod.splits)
  have "map_of st' (a_symbol an @ ''_'' @ stamp) = Some ?q"
    unfolding st' by (rule map_of_update_same)
  moreover have "np_mul (quantity ?q) (entry_price ?q)
                   = Some (get_or (trade_volume (get_symbol_config cfg (a_symbol an))) 20)"
    using pr(2) by (simp add: calculate_position_size_def Let_def np_mul_np_div)
  ultimately show "\<exists>q. map_of st' (a_symbol an @ ''_'' @ stamp) = Some q
           \<and> a_current_price an = Some (entry_price q) \<and> status q = ''OPEN''
           \<and> np_mul (quantity q) (entry_price q)
               = Some (get_or (trade_volume (get_symbol_config cfg (a_symbol an))) 20)"
    using pr(1) by (intro exI [of _ ?q]) simp
qed

theorem quantity_times_entry_price_witness:
  "bt_step cfg_btc ''BTCUSDT'' (bars drop_closes) 20 ([], None) = Inr ([], Some drop_pos)
   \<and> entry_price drop_pos \<noteq> 0
   \<and> np_mul (bp_quantity drop_pos) (entry_price drop_pos) = Some 20
   \<and> fst (execute_trade cfg_btc [] exchange_ok ''20240101_000100'' ''2024-01-01T00:01:00''
            drop_analysis)
   \<and> a_current_price drop_analysis \<noteq> Some 0
   \<and> (\<exists>q. map_of (snd (execute_trade cfg_btc [] exchange_ok ''20240101_000100''
                         ''2024-01-01T00:01:00'' drop_analysis))
              ''BTCUSDT_20240101_000100'' = Some q
          \<and> entry_price q = 48 \<and> np_mul (quantity q) (entry_price q) = Some 20)"
proof -
  let ?r = "execute_trade cfg_btc [] exchange_ok ''20240101_000100'' ''2024-01-01T00:01:00''
              drop_analysis"
  have h1: "bt_step cfg_btc ''BTCUSDT'' (bars drop_closes) 20 ([], None)
              = Inr ([], Some drop_pos)" by (rule bt_step_drop_closes)
  have h2: "entry_price drop_pos \<noteq> 0" by (simp add: drop_pos_def)
  have h3: "fst ?r"
    by (simp add: execute_trade_def drop_analysis_def exchange_ok_def has_open_position_def
          get_position_by_symbol_def get_open_positions_def Let_def split: prod.splits)
  then have h3': "?r = (True, snd ?r)" by (simp add: prod_eq_iff)
  have h4: "a_current_price drop_analysis \<noteq> Some 0" by (simp add: drop_analysis_def)
  have tv: "get_or (trade_volume (get_symbol_config cfg_btc ''BTCUSDT'')) 20 = 20"
    by (simp add: get_or_def get_symbol_config_def cfg_btc_def btc_config_def)
  have sy: "a_symbol drop_analysis = ''BTCUSDT''" "a_current_price drop_analysis = Some 48"
    by (simp_all add: drop_analysis_def)
  note q = quantity_times_entry_price [of cfg_btc "''BTCUSDT''" "bars drop_closes" 20 "[]" "[]"
      drop_pos "[]" exchange_ok "''20240101_000100''" "''2024-01-01T00:01:00''" drop_analysis
      "snd ?r"]
  from q h1 h2 have c1: "np_mul (bp_quantity drop_pos) (entry_price drop_pos) = Some 20"
    by (simp add: tv)
  from q h3' h4 have c2: "\<exists>q. map_of (snd ?r) ''BTCUSDT_20240101_000100'' = Some q
          \<and> entry_price q = 48 \<and> np_mul (quantity q) (entry_price q) = Some 20"
    by (auto simp: tv sy)
  show ?thesis using h1 h2 c1 h3 h4 c2 by blast
qed

subsection \<open>The backtest loop\<close>

lemma analyze_symbol_in_loop:
  assumes "19 \<le> i" and "i < length df"
  shows "\<exists>an. analyze_symbol cfg smb (take (Suc i) df) = Inr an
              \<and> a_current_price an = Some (close (df ! i))"
proof -
  let ?w = "take (Suc i) df"
  have len: "\<not> int (length ?w) < max rsi_period bb_period"
    using assms by (simp add: rsi_period_def bb_period_def)
  have l: "last (map close ?w) = close (df ! i)"
    using assms(2) by (simp add: take_Suc_conv_app_nth)
  obtain r where r: "calculate_rsi (map close ?w) rsi_period = Inr r"
    by (simp add: calculate_rsi_def rsi_period_def Let_def)
  obtain u m lo
    where b: "calculate_bollinger_bands (map close ?w) bb_period bb_std_dev = Inr (u, m, lo)"
    by (simp add: calculate_bollinger_bands_def bb_period_def Let_def)
  show ?thesis
    unfolding analyze_symbol_def
    by (simp only: len if_False r b sum.case prod.case Let_def l) auto
qed

lemma bt_step_with_position:
  assumes "19 \<le> i" and "i < length df"
  shows "bt_step cfg smb df i (ts, Some p) =
           (case bt_exit_check p (close (df ! i)) of
              (should_close, rsn) \<Rightarrow>
                if should_close
                then Inr (ts @ [bt_close cfg smb (timestamp (df ! i)) p (close (df ! i)) rsn],
                          None)
                else Inr (ts, Some p))"
proof -
  from analyze_symbol_in_loop [OF assms] obtain an
    where an: "analyze_symbol cfg smb (take (Suc i) df) = Inr an"
      "a_current_price an = Some (close (df ! i))" by blast
  show ?thesis by (simp add: bt_step.simps an Let_def)
qed

lemma bt_step_without_position:
  assumes "19 \<le> i" and "i < length df"
  shows "\<exists>pos'. bt_step cfg smb df i (ts, None) = Inr (ts, pos')"
proof -
  from analyze_symbol_in_loop [OF assms] obtain an
    where an: "analyze_symbol cfg smb (take (Suc i) df) = Inr an"
      "a_current_price an = Some (close (df ! i))" by blast
  show ?thesis
    by (simp add: bt_step.simps an bt_open_def Let_def split: prod.splits)
qed

lemma bt_step_shape:
  assumes "19 \<le> i" and "i < length df"
  shows "bt_step cfg smb df i (ts, Some p) = Inr (ts, Some p)
         \<or> (\<exists>t. bt_step cfg smb df i (ts, Some p) = Inr (ts @ [t], None))"
  unfolding bt_step_with_position [OF assms]
  by (cases "bt_exit_check p (close (df ! i))") simp

lemma bt_loop_counts:
  assumes "\<forall>i \<in> set is. 19 \<le> i \<and> i < length df"
  shows "\<exists>ts' pos'. bt_loop cfg smb df is (ts, pos) = Inr (ts', pos')
           \<and> length ts' + open_count pos'
               = length ts + open_count pos + bt_opens cfg smb df is (ts, pos)"
  using assms
proof (induction "is" arbitrary: ts pos)
  case Nil
  then show ?case by simp
next
  case (Cons i "is")
  then have i: "19 \<le> i" "i < length df"
    and rest: "\<forall>j \<in> set is. 19 \<le> j \<and> j < length df" by simp_all
  show ?case
  proof (cases pos)
    case None
    from bt_step_without_position [OF i] obtain pos1
      where s: "bt_step cfg smb df i (ts, None) = Inr (ts, pos1)" by blast
    from Cons.IH [OF rest, of ts pos1] obtain ts' pos'
      where ih: "bt_loop cfg smb df is (ts, pos1) = Inr (ts', pos')"
        "length ts' + open_count pos'
           = length ts + open_count pos1 + bt_opens cfg smb df is (ts, pos1)" by blast
    have "open_count pos1 = (if pos1 \<noteq> None then 1 else 0)"
      by (cases pos1) (simp_all add: open_count_def)
    then show ?thesis using None s ih by (simp add: open_count_def)
  next
    case (Some p)
    from bt_step_shape [OF i, of cfg smb ts p]
    show ?thesis
    proof
      assume s: "bt_step cfg smb df i (ts, Some p) = Inr (ts, Some p)"
      from Cons.IH [OF rest, of ts "Some p"] show ?thesis using Some s by simp
    next
      assume "\<exists>t. bt_step cfg smb df i (ts, Some p) = Inr (ts @ [t], None)"
      then obtain t where s: "bt_step cfg smb df i (ts, Some p) = Inr (ts @ [t], None)"
        by blast
      from Cons.IH [OF rest, of "ts @ [t]" None] show ?thesis
        using Some s by (simp add: open_count_def)
    qed
  qed
qed

lemma open_count_le_1: "open_count pos \<le> 1"
  by (cases pos) (simp_all add: open_count_def)

text \<open>
  C10. At a bar of the loop (index 20 or later) that begins with a position open, the
  position is either held or closed into one trade, and no position is open after the
  close; at a bar that begins with none, no trade is recorded. After any number of bars the
  loop has returned a state, and the trades recorded plus the positions still open (one at
  most) are as many as the positions opened: a position left open after the last bar is
  in no trade. \<open>run_backtest\<close> returns the trades of the last state.
\<close>

theorem run_backtest_one_position:
  "(19 \<le> i \<and> i < length df \<longrightarrow>
      (bt_step cfg smb df i (ts, Some p) = Inr (ts, Some p)
       \<or> (\<exists>t. bt_step cfg smb df i (ts, Some p) = Inr (ts @ [t], None)))
      \<and> (\<exists>pos'. bt_step cfg smb df i (ts, None) = Inr (ts, pos')))
   \<and> (k \<le> length df \<longrightarrow>
        (\<exists>trades position.
            bt_loop cfg smb df [20..<k] ([], None) = Inr (trades, position)
          \<and> length trades + open_count position = bt_opens cfg smb df [20..<k] ([], None)
          \<and> open_count position \<le> 1))
   \<and> (\<exists>trades position.
          bt_loop cfg smb df [20..<length df] ([], None) = Inr (trades, position)
        \<and> run_backtest cfg smb df = Inr (if symbol_enabled cfg smb then trades else []))"
proof (intro conjI impI)
  assume "19 \<le> i \<and> i < length df"
  then have i: "19 \<le> i" "i < length df" by simp_all
  show "bt_step cfg smb df i (ts, Some p) = Inr (ts, Some p)
       \<or> (\<exists>t. bt_step cfg smb df i (ts, Some p) = Inr (ts @ [t], None))"
    by (rule bt_step_shape [OF i])
  show "\<exists>pos'. bt_step cfg smb df i (ts, None) = Inr (ts, pos')"
    by (rule bt_step_without_position [OF i])
next
  assume k: "k \<le> length df"
  then have "\<forall>i \<in> set [20..<k]. 19 \<le> i \<and> i < length df" by auto
  from bt_loop_counts [OF this, of cfg smb "[]" None]
  show "\<exists>trades position.
            bt_loop cfg smb df [20..<k] ([], None) = Inr (trades, position)
          \<and> length trades + open_count position = bt_opens cfg smb df [20..<k] ([], None)
          \<and> open_count position \<le> 1"
    using open_count_le_1 by (simp add: open_count_def)
next
  have "\<forall>i \<in> set [20..<length df]. 19 \<le> i \<and> i < length df" by auto
  from bt_loop_counts [OF this, of cfg smb "[]" None] obtain trades position
    where l: "bt_loop cfg smb df [20..<length df] ([], None) = Inr (trades, position)"
    by blast
  have "run_backtest cfg smb df = Inr (if symbol_enabled cfg smb then trades else [])"
    by (simp add: run_backtest_def symbol_enabled_def Let_def l)
  with l show "\<exists>trades position.
          bt_loop cfg smb df [20..<length df] ([], None) = Inr (trades, position)
        \<and> run_backtest cfg smb df = Inr (if symbol_enabled cfg smb then trades else [])"
    by blast
qed

lemma take_21_rise: "take (Suc 20) (bars rise_closes) = bars drop_closes"
  by (simp add: bars_def rise_closes_def drop_closes_def enumerate_eq_zip upt_conv_Cons)

lemma bt_step_rise_20:
  "bt_step cfg_btc ''BTCUSDT'' (bars rise_closes) 20 ([], None) = Inr ([], Some drop_pos)"
proof -
  have l: "length rise_closes = 22" by (simp add: rise_closes_def)
  have ts: "timestamp (bars rise_closes ! 20) = 18000"
    by (simp add: timestamp_bars l)
  have t: "take (20 + 1) (bars rise_closes) = bars drop_closes"
    using take_21_rise by simp
  have s: "a_signal drop_analysis = ''LONG''" by (simp add: drop_analysis_def)
  show ?thesis
    apply (simp only: bt_step.simps Let_def t ts analyze_drop_closes sum.case option.case s
          bt_open_drop)
    apply simp
    done
qed

lemma bt_step_rise_21:
  "bt_step cfg_btc ''BTCUSDT'' (bars rise_closes) 21 ([], Some drop_pos)
     = Inr ([rise_trade], None)"
proof -
  have l: "length rise_closes = 22" by (simp add: rise_closes_def)
  have i: "19 \<le> (21::nat)" "21 < length (bars rise_closes)" by (simp_all add: length_bars l)
  have ts: "timestamp (bars rise_closes ! 21) = 18900"
    by (simp add: timestamp_bars l)
  have c: "close (bars rise_closes ! 21) = 50"
    by (simp add: bars_def mk_candle_def nth_enumerate_eq l) (simp add: rise_closes_def)
  have e: "bt_exit_check drop_pos 50 = (True, Some ''Take Profit'')"
    by (simp add: bt_exit_check_def drop_pos_def)
  have b: "bt_close cfg_btc ''BTCUSDT'' 18900 drop_pos 50 (Some ''Take Profit'') = rise_trade"
    by (simp add: bt_close_def drop_pos_def rise_trade_def np_div_def np_mul_def get_or_def
          get_symbol_config_def cfg_btc_def btc_config_def Let_def)
  show ?thesis
    unfolding bt_step_with_position [OF i] ts c e by (simp add: b)
qed

lemma bt_loop_rise:
  "bt_loop cfg_btc ''BTCUSDT'' (bars rise_closes) [20..<22] ([], None)
     = Inr ([rise_trade], None)"
proof -
  have "[20..<22] = [20, 21::nat]" by (simp add: upt_conv_Cons)
  then show ?thesis by (simp add: bt_step_rise_20 bt_step_rise_21)
qed

lemma bt_loop_drop:
  "bt_loop cfg_btc ''BTCUSDT'' (bars drop_closes) [20..<21] ([], None)
     = Inr ([], Some drop_pos)"
proof -
  have "[20..<21] = [20::nat]" by (simp add: upt_conv_Cons)
  then show ?thesis by (simp add: bt_step_drop_closes)
qed

theorem run_backtest_one_position_witness:
  "19 \<le> (21::nat) \<and> 21 < length (bars rise_closes) \<and> 22 \<le> length (bars rise_closes)
   \<and> bt_step cfg_btc ''BTCUSDT'' (bars rise_closes) 20 ([], None) = Inr ([], Some drop_pos)
   \<and> bt_step cfg_btc ''BTCUSDT'' (bars rise_closes) 21 ([], Some drop_pos)
       = Inr ([] @ [rise_trade], None)
   \<and> bt_opens cfg_btc ''BTCUSDT'' (bars rise_closes) [20..<22] ([], None) = 1
   \<and> run_backtest cfg_btc ''BTCUSDT'' (bars rise_closes) = Inr [rise_trade]
   \<and> bt_loop cfg_btc ''BTCUSDT'' (bars drop_closes) [20..<21] ([], None)
       = Inr ([], Some drop_pos)
   \<and> bt_opens cfg_btc ''BTCUSDT'' (bars drop_closes) [20..<21] ([], None) = 1
   \<and> run_backtest cfg_btc ''BTCUSDT'' (bars drop_closes) = Inr []"
proof -
  have lr: "length (bars rise_closes) = 22" by (simp add: length_bars rise_closes_def)
  have ld: "length (bars drop_closes) = 21" by (simp add: length_bars drop_closes_def)
  have en: "symbol_enabled cfg_btc ''BTCUSDT''"
    by (simp add: symbol_enabled_def get_symbol_config_def cfg_btc_def btc_config_def
          empty_config_def get_or_def)
  note rise = run_backtest_one_position [of 21 "bars rise_closes" cfg_btc "''BTCUSDT''" "[]"
      drop_pos 22]
  note drp = run_backtest_one_position [of 20 "bars drop_closes" cfg_btc "''BTCUSDT''" "[]"
      drop_pos 21]
  have r1: "bt_opens cfg_btc ''BTCUSDT'' (bars rise_closes) [20..<22] ([], None) = 1"
    using rise lr bt_loop_rise by (simp add: open_count_def)
  have r2: "run_backtest cfg_btc ''BTCUSDT'' (bars rise_closes) = Inr [rise_trade]"
    using rise lr bt_loop_rise en by simp
  have d1: "bt_opens cfg_btc ''BTCUSDT'' (bars drop_closes) [20..<21] ([], None) = 1"
    using drp ld bt_loop_drop by (simp add: open_count_def)
  have d2: "run_backtest cfg_btc ''BTCUSDT'' (bars drop_closes) = Inr []"
    using drp ld bt_loop_drop en by simp
  show ?thesis
    using lr r1 r2 d1 d2 bt_step_rise_20 bt_step_rise_21 bt_loop_drop by simp
qed

end
